theory Spec2Isabelle
  imports Complex_Main "HOL-Library.Sublist"
begin

section \<open>Report data\<close>

text \<open>
  The types of a certificate of analysis (COA), as the type declarations give them. A
  JavaScript \<^verbatim>\<open>number\<close> that holds a measurement is a \<^typ>\<open>real\<close>; \<^verbatim>\<open>NaN\<close> and the
  infinities are not represented, and arithmetic is exact. An optional or nullable field
  is an option. The field \<^verbatim>\<open>notes\<close> of a COA is written \<open>coaNotes\<close>.
\<close>

text \<open>
  \<^verbatim>\<open>'detected' | 'ND' | '< LOQ' | 'Complete' | 'Not Submitted' | 'Not Tested'\<close>
\<close>

datatype CannabinoidResult = Detected | ND | BelowLOQ | Complete | NotSubmitted | NotTested

record Cannabinoid =
  name :: string
  percentWeight :: real
  mgPerG :: real
  loq :: real
  lod :: real
  result :: CannabinoidResult

record COAData =
  labName :: string
  labContact :: string
  labDirector :: string
  directorTitle :: string
  approvalDate :: string
  sampleName :: string
  sampleId :: string
  strain :: string
  batchId :: string
  sampleSize :: string
  sampleType :: string
  methodReference :: string
  clientName :: string
  clientAddress :: "string option"
  licenseNumber :: "string option"
  storeId :: "string option"
  dateCollected :: string
  dateReceived :: string
  dateTested :: string
  dateTestedEnd :: "string option"
  dateReported :: string
  testsBatch :: bool
  testsCannabinoids :: bool
  testsMoisture :: bool
  testsHeavyMetals :: bool
  testsPesticides :: bool
  testsMicrobials :: bool
  cannabinoids :: "Cannabinoid list"
  totalTHC :: real
  totalCBD :: real
  totalCannabinoids :: real
  edibleDosage :: "real option"
  edibleWeight :: "real option"
  moisture :: "real option"
  coaNotes :: string
  qrCodeDataUrl :: "string option"
  publicUrl :: "string option"
  includeImage :: "bool option"
  productImageUrl :: "string option"
  vendorId :: "string option"

text \<open>
  The validation types. \<^verbatim>\<open>type\<close> is
  \<^verbatim>\<open>'cannabinoid-formula' | 'logic-consistency' | 'data-uniqueness'\<close> and \<^verbatim>\<open>severity\<close> is
  \<^verbatim>\<open>'error' | 'warning'\<close>.
\<close>

datatype CheckType = CannabinoidFormula | LogicConsistency | DataUniqueness

datatype Severity = Error | Warning

record ValidationError =
  type :: CheckType
  severity :: Severity
  message :: string
  field :: "string option"
  expectedValue :: "real option"
  actualValue :: "real option"

record ValidationResult =
  isValid :: bool
  errors :: "ValidationError list"
  warnings :: "ValidationError list"

record CannabinoidFormulaCheck =
  totalTHCCalculated :: real
  totalTHCReported :: real
  totalCBDCalculated :: real
  totalCBDReported :: real
  sumOfCannabinoidsCalculated :: real
  sumOfCannabinoidsReported :: real
  thcMismatch :: real
  cbdMismatch :: real
  sumMismatch :: real

record LogicConsistencyCheck =
  ndOrLowQPresent :: bool
  totalCannabiniodsGteTotalTHC :: bool
  cbdSliceExists :: bool
  moistureInRange :: bool
  delta8THCFlagged :: bool

record DataUniquenessCheck =
  duplicateCannabinoidsFound :: bool
  duplicateMoistureFound :: bool
  duplicateBatchIdFound :: bool
  duplicateSampleIdFound :: bool
  previousCOAData :: "COAData list option"

record ComprehensiveValidationResult = ValidationResult +
  cannabinoidFormulaCheck :: CannabinoidFormulaCheck
  logicConsistencyCheck :: LogicConsistencyCheck
  dataUniquenessCheck :: DataUniquenessCheck

section \<open>The potency engine\<close>

text \<open>
  The source files at hand declare the engine's types and hold none of its functions:
  the Result Classifier, the Potency Aggregator and the Validation Engine are not among
  them. The definitions of this section follow the specification's description of the
  three, sentence by sentence; each names the part it stands for.
\<close>

text \<open>
  Modelled from the spec: the constants of the missing engine that the specification
  leaves open. \<open>tolerance\<close> is the fixed tight tolerance of the formula check and
  \<open>errorThreshold\<close> its larger threshold; \<open>belowLoqContribution\<close> gives, from an analyte's
  LOQ, what a below-quantitation analyte adds to the total of all analytes; \<open>moistureMin\<close>
  and \<open>moistureMax\<close> bound the accepted moisture.
\<close>

record EngineConfig =
  tolerance :: real
  errorThreshold :: real
  belowLoqContribution :: "real \<Rightarrow> real"
  moistureMin :: real
  moistureMax :: real

subsection \<open>Result Classifier\<close>

text \<open>
  Modelled from the spec: the missing classifier's test for malformed input. "Negative
  or non-numeric input is treated as zero and triggers a structural error".
\<close>

definition structuralError :: "real \<Rightarrow> bool" where
  "structuralError quantity = (quantity < 0)"

text \<open>
  Modelled from the spec: the quantity the missing classifier works with, a negative
  input being treated as zero.
\<close>

definition treatedQuantity :: "real \<Rightarrow> real" where
  "treatedQuantity quantity = (if structuralError quantity then 0 else quantity)"

text \<open>
  Modelled from the spec: the missing Result Classifier. "quantity < LOD: not-detected;
  LOD \<le> quantity < LOQ: below-quantitation; quantity \<ge> LOQ: detected."
\<close>

definition classifyResult :: "real \<Rightarrow> real \<Rightarrow> real \<Rightarrow> CannabinoidResult" where
  "classifyResult quantity limitOfDetection limitOfQuantitation =
     (let q = treatedQuantity quantity
      in if q < limitOfDetection then ND
         else if q < limitOfQuantitation then BelowLOQ
         else Detected)"

text \<open>
  Modelled from the spec: the missing classifier applied to an analyte measurement, with
  the measurement's own LOD and LOQ.
\<close>

definition classifyAnalyte :: "Cannabinoid \<Rightarrow> CannabinoidResult" where
  "classifyAnalyte c = classifyResult (percentWeight c) (lod c) (loq c)"

subsection \<open>Potency Aggregator\<close>

text \<open>
  Modelled from the spec: the decarboxylation factor 0.877 of the missing aggregator.
\<close>

definition decarboxylationFactor :: real where
  "decarboxylationFactor = 877 / 1000"

text \<open>
  Modelled from the spec: the missing aggregator's reading of one analyte's quantity
  from the analyte list: the percent-by-weight of the first analyte of that name, and
  zero when the list has none (a missing numeric input is treated as zero).
\<close>

definition quantityOf :: "string \<Rightarrow> Cannabinoid list \<Rightarrow> real" where
  "quantityOf analyte cs =
     (case find (\<lambda>c. name c = analyte) cs of
        None \<Rightarrow> 0
      | Some c \<Rightarrow> percentWeight c)"

text \<open>
  Modelled from the spec: the missing aggregator's total THC,
  "(D9-THC quantity) + 0.877 \<times> (THCA quantity)".
\<close>

definition calculateTotalTHC :: "Cannabinoid list \<Rightarrow> real" where
  "calculateTotalTHC cs =
     quantityOf ''D9-THC'' cs + decarboxylationFactor * quantityOf ''THCA'' cs"

text \<open>
  Modelled from the spec: the missing aggregator's total CBD,
  "(CBD quantity) + 0.877 \<times> (CBDA quantity)".
\<close>

definition calculateTotalCBD :: "Cannabinoid list \<Rightarrow> real" where
  "calculateTotalCBD cs =
     quantityOf ''CBD'' cs + decarboxylationFactor * quantityOf ''CBDA'' cs"

text \<open>
  Modelled from the spec: what one analyte adds to the missing aggregator's total of all
  analytes: nothing when it classifies as not-detected, the policy value when it
  classifies as below-quantitation, its quantity otherwise.
\<close>

definition analyteContribution :: "EngineConfig \<Rightarrow> Cannabinoid \<Rightarrow> real" where
  "analyteContribution cfg c =
     (case classifyAnalyte c of
        ND \<Rightarrow> 0
      | BelowLOQ \<Rightarrow> belowLoqContribution cfg (loq c)
      | _ \<Rightarrow> percentWeight c)"

text \<open>
  Modelled from the spec: the missing aggregator's total of all analytes, the sum of
  every analyte's contribution.
\<close>

definition calculateTotalCannabinoids :: "EngineConfig \<Rightarrow> Cannabinoid list \<Rightarrow> real" where
  "calculateTotalCannabinoids cfg cs = sum_list (map (analyteContribution cfg) cs)"

subsection \<open>Validation Engine: formula consistency\<close>

text \<open>
  Modelled from the spec: the finding of the missing formula check for one aggregate. A
  mismatch above the tolerance is reported with the recomputed value as expected and the
  stated value as actual; above the larger threshold it is an error, otherwise a warning.
\<close>

definition formulaFinding ::
  "EngineConfig \<Rightarrow> string \<Rightarrow> real \<Rightarrow> real \<Rightarrow> ValidationError list" where
  "formulaFinding cfg aggregate calculated reported =
     (let mismatch = \<bar>calculated - reported\<bar>
      in if mismatch > tolerance cfg
         then [\<lparr> type = CannabinoidFormula,
                 severity = (if mismatch > errorThreshold cfg then Error else Warning),
                 message = aggregate @ '' does not match the value recomputed from the analytes'',
                 field = Some aggregate,
                 expectedValue = Some calculated,
                 actualValue = Some reported \<rparr>]
         else [])"

text \<open>
  Modelled from the spec: the missing formula-consistency check. It recomputes total
  THC, total CBD and the total of all analytes from the report's analyte list and
  compares each with the report's stated field.
\<close>

definition validateCannabinoidFormulas ::
  "EngineConfig \<Rightarrow> COAData \<Rightarrow> ValidationError list \<times> CannabinoidFormulaCheck" where
  "validateCannabinoidFormulas cfg coa =
     (let thc = calculateTotalTHC (cannabinoids coa);
          cbd = calculateTotalCBD (cannabinoids coa);
          sumAll = calculateTotalCannabinoids cfg (cannabinoids coa)
      in (formulaFinding cfg ''totalTHC'' thc (totalTHC coa)
            @ formulaFinding cfg ''totalCBD'' cbd (totalCBD coa)
            @ formulaFinding cfg ''totalCannabinoids'' sumAll (totalCannabinoids coa),
          \<lparr> totalTHCCalculated = thc, totalTHCReported = totalTHC coa,
            totalCBDCalculated = cbd, totalCBDReported = totalCBD coa,
            sumOfCannabinoidsCalculated = sumAll,
            sumOfCannabinoidsReported = totalCannabinoids coa,
            thcMismatch = \<bar>thc - totalTHC coa\<bar>,
            cbdMismatch = \<bar>cbd - totalCBD coa\<bar>,
            sumMismatch = \<bar>sumAll - totalCannabinoids coa\<bar> \<rparr>))"

subsection \<open>Validation Engine: logic consistency\<close>

text \<open>
  Modelled from the spec: the error of the missing logic check, raised when the total of
  all analytes is below total THC.
\<close>

definition totalBelowTHCFinding :: "COAData \<Rightarrow> ValidationError" where
  "totalBelowTHCFinding coa =
     \<lparr> type = LogicConsistency, severity = Error,
       message = ''total cannabinoids is less than total THC'',
       field = Some ''totalCannabinoids'',
       expectedValue = Some (totalTHC coa),
       actualValue = Some (totalCannabinoids coa) \<rparr>"

text \<open>
  Modelled from the spec: the warning of the missing logic check for a moisture outside
  the accepted range.
\<close>

definition moistureFinding :: "real \<Rightarrow> ValidationError" where
  "moistureFinding m =
     \<lparr> type = LogicConsistency, severity = Warning,
       message = ''moisture is outside the accepted range'',
       field = Some ''moisture'',
       expectedValue = None,
       actualValue = Some m \<rparr>"

text \<open>
  Modelled from the spec: the warning of the missing logic check for a Delta-8-THC
  analyte, a non-standard cannabinoid that needs explicit notation.
\<close>

definition delta8Finding :: ValidationError where
  "delta8Finding =
     \<lparr> type = LogicConsistency, severity = Warning,
       message = ''Delta-8-THC is present and must be noted explicitly'',
       field = Some ''Delta-8-THC'',
       expectedValue = None,
       actualValue = None \<rparr>"

text \<open>
  Modelled from the spec: the names of the CBD family that the missing logic check looks
  for.
\<close>

definition cbdFamily :: "string list" where
  "cbdFamily = [''CBD'', ''CBDA'']"

text \<open>
  Modelled from the spec: the flags of the missing logic-consistency check: an analyte
  classifies as not-detected or below-quantitation; the stated total of all analytes is
  at least the stated total THC; an analyte of the CBD family is present; the moisture,
  if present, is within the accepted range; a Delta-8-THC analyte is present.
\<close>

definition logicFlags :: "EngineConfig \<Rightarrow> COAData \<Rightarrow> LogicConsistencyCheck" where
  "logicFlags cfg coa =
     \<lparr> ndOrLowQPresent =
         list_ex (\<lambda>c. classifyAnalyte c = ND \<or> classifyAnalyte c = BelowLOQ) (cannabinoids coa),
       totalCannabiniodsGteTotalTHC = (totalCannabinoids coa \<ge> totalTHC coa),
       cbdSliceExists = list_ex (\<lambda>c. name c \<in> set cbdFamily) (cannabinoids coa),
       moistureInRange =
         (case moisture coa of
            None \<Rightarrow> True
          | Some m \<Rightarrow> moistureMin cfg \<le> m \<and> m \<le> moistureMax cfg),
       delta8THCFlagged = list_ex (\<lambda>c. name c = ''Delta-8-THC'') (cannabinoids coa) \<rparr>"

text \<open>
  Modelled from the spec: the missing logic-consistency check. Each rule gives at most
  one finding: an error when the total of all analytes is below total THC, a warning for
  a moisture out of range, a warning for Delta-8-THC; the other two flags give none.
\<close>

definition validateLogicConsistency ::
  "EngineConfig \<Rightarrow> COAData \<Rightarrow> ValidationError list \<times> LogicConsistencyCheck" where
  "validateLogicConsistency cfg coa =
     (let flags = logicFlags cfg coa
      in ((if totalCannabiniodsGteTotalTHC flags then [] else [totalBelowTHCFinding coa])
            @ (case moisture coa of
                 None \<Rightarrow> []
               | Some m \<Rightarrow> if moistureInRange flags then [] else [moistureFinding m])
            @ (if delta8THCFlagged flags then [delta8Finding] else []),
          flags))"

subsection \<open>Validation Engine: data uniqueness\<close>

text \<open>
  Modelled from the spec: the four findings of the missing uniqueness check. A reused
  sample identifier is an error; an identical analyte-value set, an identical moisture
  and a reused batch identifier are warnings.
\<close>

definition uniquenessFinding :: "Severity \<Rightarrow> string \<Rightarrow> string \<Rightarrow> ValidationError" where
  "uniquenessFinding sev fld msg =
     \<lparr> type = DataUniqueness, severity = sev, message = msg, field = Some fld,
       expectedValue = None, actualValue = None \<rparr>"

text \<open>
  Modelled from the spec: the finding of the missing uniqueness check for an analyte-value
  set that an earlier report with another sample identifier has too.
\<close>

definition duplicateCannabinoidsFinding :: ValidationError where
  "duplicateCannabinoidsFinding =
     uniquenessFinding Warning ''cannabinoids''
       ''an earlier report has the same cannabinoid values''"

text \<open>
  Modelled from the spec: the finding of the missing uniqueness check for a moisture
  value that an earlier report with another sample identifier has too.
\<close>

definition duplicateMoistureFinding :: ValidationError where
  "duplicateMoistureFinding =
     uniquenessFinding Warning ''moisture'' ''an earlier report has the same moisture''"

text \<open>
  Modelled from the spec: the finding of the missing uniqueness check for a batch
  identifier that an earlier report with another sample identifier has too.
\<close>

definition duplicateBatchIdFinding :: ValidationError where
  "duplicateBatchIdFinding =
     uniquenessFinding Warning ''batchId'' ''an earlier report has the same batch identifier''"

text \<open>
  Modelled from the spec: the finding of the missing uniqueness check for a sample
  identifier that an earlier report has too.
\<close>

definition duplicateSampleIdFinding :: ValidationError where
  "duplicateSampleIdFinding =
     uniquenessFinding Error ''sampleId'' ''an earlier report has the same sample identifier''"

text \<open>
  Modelled from the spec: the analyte values that the missing uniqueness check compares,
  each analyte's name with its stored percent-by-weight, compared exactly.
\<close>

definition analyteValues :: "COAData \<Rightarrow> (string \<times> real) list" where
  "analyteValues coa = map (\<lambda>c. (name c, percentWeight c)) (cannabinoids coa)"

text \<open>
  Modelled from the spec: the flags of the missing uniqueness check against a history of
  earlier reports. The first three compare with the earlier reports of another sample
  identifier, the fourth looks for the report's own sample identifier.
\<close>

definition uniquenessFlags :: "COAData \<Rightarrow> COAData list \<Rightarrow> DataUniquenessCheck" where
  "uniquenessFlags coa history =
     (let others = filter (\<lambda>p. sampleId p \<noteq> sampleId coa) history
      in \<lparr> duplicateCannabinoidsFound =
             list_ex (\<lambda>p. set (analyteValues p) = set (analyteValues coa)) others,
           duplicateMoistureFound =
             list_ex (\<lambda>p. moisture coa \<noteq> None \<and> moisture p = moisture coa) others,
           duplicateBatchIdFound = list_ex (\<lambda>p. batchId p = batchId coa) others,
           duplicateSampleIdFound = list_ex (\<lambda>p. sampleId p = sampleId coa) history,
           previousCOAData = Some history \<rparr>)"

text \<open>
  Modelled from the spec: the missing data-uniqueness check. Without a history it finds
  nothing; with one, each flag that is set gives its finding.
\<close>

definition validateDataUniqueness ::
  "COAData \<Rightarrow> COAData list option \<Rightarrow> ValidationError list \<times> DataUniquenessCheck" where
  "validateDataUniqueness coa previous =
     (case previous of
        None \<Rightarrow>
          ([], \<lparr> duplicateCannabinoidsFound = False, duplicateMoistureFound = False,
                 duplicateBatchIdFound = False, duplicateSampleIdFound = False,
                 previousCOAData = None \<rparr>)
      | Some history \<Rightarrow>
          (let flags = uniquenessFlags coa history
           in ((if duplicateCannabinoidsFound flags then [duplicateCannabinoidsFinding] else [])
                 @ (if duplicateMoistureFound flags then [duplicateMoistureFinding] else [])
                 @ (if duplicateBatchIdFound flags then [duplicateBatchIdFinding] else [])
                 @ (if duplicateSampleIdFound flags then [duplicateSampleIdFinding] else []),
               flags)))"

subsection \<open>Validation Engine: the verdict\<close>

text \<open>
  Modelled from the spec: the combined output of the three checks of the missing engine,
  in the order formula, logic, uniqueness.
\<close>

definition allFindings ::
  "EngineConfig \<Rightarrow> COAData \<Rightarrow> COAData list option \<Rightarrow> ValidationError list" where
  "allFindings cfg coa previous =
     fst (validateCannabinoidFormulas cfg coa)
       @ fst (validateLogicConsistency cfg coa)
       @ fst (validateDataUniqueness coa previous)"

text \<open>
  Modelled from the spec: the verdict of the missing Validation Engine. The findings of
  severity error and those of severity warning are merged into two flat lists, in order;
  the verdict passes when there is no error; the three sub-results are kept. A report of
  the declared type always has an analyte list, so the engine's failure on an absent
  list has no case here; how a structural error is reported, the specification does not
  say, and the verdict holds the findings of the three checks only.
\<close>

definition validateCOA ::
  "EngineConfig \<Rightarrow> COAData \<Rightarrow> COAData list option \<Rightarrow> ComprehensiveValidationResult" where
  "validateCOA cfg coa previous =
     (let findings = allFindings cfg coa previous;
          errs = filter (\<lambda>f. severity f = Error) findings;
          warns = filter (\<lambda>f. severity f = Warning) findings
      in \<lparr> isValid = (errs = []), errors = errs, warnings = warns,
           cannabinoidFormulaCheck = snd (validateCannabinoidFormulas cfg coa),
           logicConsistencyCheck = snd (validateLogicConsistency cfg coa),
           dataUniquenessCheck = snd (validateDataUniqueness coa previous) \<rparr>)"

subsection \<open>Sample reports\<close>

text \<open>
  A configuration with the values the specification gives as examples (a tolerance of
  0.01, no contribution below quantitation, moisture between 5 and 15) and a larger
  threshold of 0.5, and reports for evaluating the engine.
\<close>

definition sampleConfig :: EngineConfig where
  "sampleConfig =
     \<lparr> tolerance = 1 / 100, errorThreshold = 1 / 2, belowLoqContribution = (\<lambda>q. 0),
       moistureMin = 5, moistureMax = 15 \<rparr>"

definition analyte :: "string \<Rightarrow> real \<Rightarrow> Cannabinoid" where
  "analyte n pw =
     \<lparr> name = n, percentWeight = pw, mgPerG = pw * 10, loq = 5 / 100, lod = 1 / 100,
       result = classifyResult pw (1 / 100) (5 / 100) \<rparr>"

definition sampleCannabinoids :: "Cannabinoid list" where
  "sampleCannabinoids =
     [analyte ''THCA'' 20, analyte ''D9-THC'' (1 / 2), analyte ''CBDA'' (3 / 100),
      analyte ''CBD'' 0]"

definition sampleCOA :: "string \<Rightarrow> string \<Rightarrow> real \<Rightarrow> real \<Rightarrow> COAData" where
  "sampleCOA sid bid thc tot =
     \<lparr> labName = ''Quantix Analytics'', labContact = ''lab@example.com'',
       labDirector = ''A. Director'', directorTitle = ''Laboratory Director'',
       approvalDate = ''2025-01-05'', sampleName = ''Blue Dream'', sampleId = sid,
       strain = ''Blue Dream'', batchId = bid, sampleSize = ''5 g'',
       sampleType = ''Flower - Cured'', methodReference = ''HPLC'',
       clientName = ''Flora'', clientAddress = None, licenseNumber = None, storeId = None,
       dateCollected = ''2025-01-01'', dateReceived = ''2025-01-02'',
       dateTested = ''2025-01-03'', dateTestedEnd = None, dateReported = ''2025-01-05'',
       testsBatch = True, testsCannabinoids = True, testsMoisture = True,
       testsHeavyMetals = False, testsPesticides = False, testsMicrobials = False,
       cannabinoids = sampleCannabinoids, totalTHC = thc, totalCBD = 0,
       totalCannabinoids = tot, edibleDosage = None, edibleWeight = None,
       moisture = Some 10, coaNotes = [], qrCodeDataUrl = None, publicUrl = None,
       includeImage = None, productImageUrl = None, vendorId = None \<rparr>"

section \<open>The COA library page: selection and filtering\<close>

subsection \<open>The selection set\<close>

text \<open>
  The page keeps the selected COA identifiers in a JavaScript \<^verbatim>\<open>Set<string>\<close>. Such a set
  holds each value at most once and iterates in insertion order, so it is modelled as the
  list of its elements in insertion order. \<^verbatim>\<open>new Set(prev)\<close> copies the elements in
  order, \<^verbatim>\<open>has\<close> tests membership, \<^verbatim>\<open>delete\<close> removes the value, and \<^verbatim>\<open>add\<close> appends the
  value unless it is already present.
\<close>

type_synonym js_set = "string list"

definition js_set_copy :: "js_set \<Rightarrow> js_set" where
  "js_set_copy prev = prev"

definition js_has :: "js_set \<Rightarrow> string \<Rightarrow> bool" where
  "js_has s x = (x \<in> set s)"

definition js_delete :: "js_set \<Rightarrow> string \<Rightarrow> js_set" where
  "js_delete s x = filter (\<lambda>y. y \<noteq> x) s"

definition js_add :: "js_set \<Rightarrow> string \<Rightarrow> js_set" where
  "js_add s x = (if x \<in> set s then s else s @ [x])"

text \<open>
  \<^verbatim>\<open>handleSelectCOA(coaId)\<close> calls \<^verbatim>\<open>setSelectedCOAs\<close> with an updater; the function below
  is that updater, from the previous selection to the next one.
\<close>

definition handleSelectCOA :: "string \<Rightarrow> js_set \<Rightarrow> js_set" where
  "handleSelectCOA coaId prev =
     (let newSet = js_set_copy prev
      in if js_has newSet coaId then js_delete newSet coaId else js_add newSet coaId)"

subsection \<open>The filtered list\<close>

text \<open>
  A row of the page, \<^verbatim>\<open>interface COAFile\<close>. Optional fields are options. A JavaScript
  string is modelled as a \<^typ>\<open>string\<close>. The fields \<^verbatim>\<open>id\<close>, \<^verbatim>\<open>name\<close>, \<^verbatim>\<open>storeId\<close> and
  \<^verbatim>\<open>labName\<close> are written \<open>coaId\<close>, \<open>coaName\<close>, \<open>coaStoreId\<close> and \<open>coaLabName\<close>, and
  the \<^verbatim>\<open>size\<close> of the metadata \<open>fileSize\<close>, to keep them apart from other constants.
\<close>

record COAMetadata =
  fileSize :: "real option"

record COAFile =
  coaId :: string
  coaName :: string
  created_at :: string
  updated_at :: string
  metadata :: "COAMetadata option"
  viewerUrl :: string
  clientFolder :: "string option"
  coaStoreId :: "string option"
  strainName :: "string option"
  testDate :: "string option"
  batchNumber :: "string option"
  coaLabName :: "string option"
  productId :: "string option"
  productName :: "string option"

text \<open>
  A character of a \<^typ>\<open>string\<close> stands for a UTF-16 code unit below 256, that is, a
  character of Latin-1. \<^verbatim>\<open>String.prototype.toLowerCase\<close> moves the capital letters among
  them to their small letters, 32 code units up: \<open>A\<close> to \<open>Z\<close> (65 to 90), and the
  accented capitals 192 to 222 except the multiplication sign 215. Every other code unit
  below 256 stays: the digits and signs, the small letters, the sharp s (223) and the
  y with diaeresis (255), whose capitals lie beyond 255.
\<close>

definition toLowerChar :: "char \<Rightarrow> char" where
  "toLowerChar c =
     (let n = (of_char c :: nat)
      in if (65 \<le> n \<and> n \<le> 90) \<or> (192 \<le> n \<and> n \<le> 222 \<and> n \<noteq> 215)
         then char_of (n + 32)
         else c)"

definition toLowerCase :: "string \<Rightarrow> string" where
  "toLowerCase s = map toLowerChar s"

text \<open>
  \<^verbatim>\<open>s.includes(t)\<close>: \<open>t\<close> occurs in \<open>s\<close> as a contiguous run, starting at some position.
\<close>

fun js_includes :: "string \<Rightarrow> string \<Rightarrow> bool" where
  "js_includes [] t = (t = [])"
| "js_includes (c # cs) t = (prefix t (c # cs) \<or> js_includes cs t)"

text \<open>
  \<^verbatim>\<open>coa.strainName?.toLowerCase().includes(...)\<close>: on an absent field the optional chain
  gives \<^verbatim>\<open>undefined\<close>, which counts as false in \<^verbatim>\<open>||\<close>, in \<^verbatim>\<open>&&\<close> and as the result of
  the filter's callback.
\<close>

definition optIncludes :: "string option \<Rightarrow> string \<Rightarrow> bool" where
  "optIncludes fld searchTerm =
     (case fld of
        None \<Rightarrow> False
      | Some s \<Rightarrow> js_includes (toLowerCase s) (toLowerCase searchTerm))"

definition matchesSearch :: "string \<Rightarrow> COAFile \<Rightarrow> bool" where
  "matchesSearch searchTerm coa =
     (js_includes (toLowerCase (coaName coa)) (toLowerCase searchTerm)
      \<or> optIncludes (strainName coa) searchTerm
      \<or> optIncludes (clientFolder coa) searchTerm)"

definition matchesClient :: "string \<Rightarrow> COAFile \<Rightarrow> bool" where
  "matchesClient selectedClient coa =
     (selectedClient = ''all'' \<or> clientFolder coa = Some selectedClient)"

definition filteredCOAs :: "COAFile list \<Rightarrow> string \<Rightarrow> string \<Rightarrow> COAFile list" where
  "filteredCOAs coaFiles searchTerm selectedClient =
     filter (\<lambda>coa. matchesSearch searchTerm coa \<and> matchesClient selectedClient coa) coaFiles"

text \<open>
  A sample list of rows, for evaluating the page's functions. The name of the last row
  has the capital E with acute accent (201), whose small letter is 233.
\<close>

definition sampleFile :: "string \<Rightarrow> string \<Rightarrow> string option \<Rightarrow> string option \<Rightarrow> COAFile" where
  "sampleFile i n folder sn =
     \<lparr> coaId = i, coaName = n, created_at = ''2025-01-01'', updated_at = ''2025-01-02'',
       metadata = None, viewerUrl = ''https://www.quantixanalytics.com/coa/s1/'' @ n,
       clientFolder = folder, coaStoreId = Some ''s1'', strainName = sn,
       testDate = None, batchNumber = None, coaLabName = None, productId = None,
       productName = None \<rparr>"

definition sampleFiles :: "COAFile list" where
  "sampleFiles =
     [sampleFile ''1'' ''Blue_Dream.pdf'' (Some ''Flora'') (Some ''Blue Dream''),
      sampleFile ''2'' ''Gelato.pdf'' (Some ''Zen'') (Some ''Gelato''),
      sampleFile ''3'' ''legacy.pdf'' None None,
      sampleFile ''4'' (''CAF'' @ [char_of (201::nat)] @ ''.pdf'') (Some ''Zen'') None]"

section \<open>The Supabase client module\<close>

text \<open>
  The module keeps three module-level variables, each \<^verbatim>\<open>null\<close> or a client, and three
  getters that fill them on demand. \<^verbatim>\<open>process.env\<close> is a map from names to strings;
  \<^verbatim>\<open>process.env.X || ''\<close> is the empty string when \<open>X\<close> is unset or empty.
\<close>

type_synonym env = "string \<rightharpoonup> string"

definition envOrEmpty :: "env \<Rightarrow> string \<Rightarrow> string" where
  "envOrEmpty e k = (case e k of None \<Rightarrow> [] | Some v \<Rightarrow> if v = [] then [] else v)"

definition getAuthUrl :: "env \<Rightarrow> string" where
  "getAuthUrl e = envOrEmpty e ''NEXT_PUBLIC_SUPABASE_AUTH_URL''"

definition getAuthKey :: "env \<Rightarrow> string" where
  "getAuthKey e = envOrEmpty e ''NEXT_PUBLIC_SUPABASE_AUTH_ANON_KEY''"

definition getDataUrl :: "env \<Rightarrow> string" where
  "getDataUrl e = envOrEmpty e ''NEXT_PUBLIC_SUPABASE_DATA_URL''"

definition getDataKey :: "env \<Rightarrow> string" where
  "getDataKey e = envOrEmpty e ''NEXT_PUBLIC_SUPABASE_DATA_ANON_KEY''"

definition getVendorUrl :: "env \<Rightarrow> string" where
  "getVendorUrl e = envOrEmpty e ''NEXT_PUBLIC_SUPABASE_VENDOR_URL''"

definition getVendorKey :: "env \<Rightarrow> string" where
  "getVendorKey e = envOrEmpty e ''NEXT_PUBLIC_SUPABASE_VENDOR_ANON_KEY''"

text \<open>The options object handed to \<^verbatim>\<open>createClient\<close>; an absent property is \<open>None\<close>.\<close>

datatype Storage = LocalStorage

record AuthOptions =
  persistSession :: bool
  autoRefreshToken :: "bool option"
  storage :: "Storage option"
  storageKey :: string
  detectSessionInUrl :: "bool option"

record ClientOptions =
  auth :: AuthOptions
  globalHeaders :: "(string \<times> string) list option"

text \<open>
  A client is an object: \<open>ref\<close> is its identity (two objects made by two calls of
  \<^verbatim>\<open>createClient\<close> differ in it), the other fields are what it was made from.
\<close>

record SupabaseClient =
  ref :: nat
  supabaseUrl :: string
  supabaseKey :: string
  options :: ClientOptions

record ClientModule =
  authClientInstance :: "SupabaseClient option"
  dataClientInstance :: "SupabaseClient option"
  vendorClientInstance :: "SupabaseClient option"
  created :: nat

definition initialModule :: ClientModule where
  "initialModule =
     \<lparr> authClientInstance = None, dataClientInstance = None, vendorClientInstance = None,
       created = 0 \<rparr>"

text \<open>
  \<^verbatim>\<open>createClient\<close> belongs to the Supabase library, so what it accepts is a parameter:
  \<open>accepts url key opts\<close> says that the call returns a client, otherwise it throws. A
  returned client is a new object; \<open>created\<close> counts the objects made so far and numbers
  the next one.
\<close>

datatype client_error = CreateClientThrew

type_synonym library = "string \<Rightarrow> string \<Rightarrow> ClientOptions \<Rightarrow> bool"

definition createClient ::
  "library \<Rightarrow> string \<Rightarrow> string \<Rightarrow> ClientOptions \<Rightarrow> ClientModule
     \<Rightarrow> (client_error + SupabaseClient) \<times> ClientModule" where
  "createClient accepts url key opts m =
     (if accepts url key opts
      then (Inr \<lparr> ref = created m, supabaseUrl = url, supabaseKey = key, options = opts \<rparr>,
            m\<lparr> created := Suc (created m) \<rparr>)
      else (Inl CreateClientThrew, m))"

definition authOptions :: "bool \<Rightarrow> ClientOptions" where
  "authOptions hasWindow =
     \<lparr> auth = \<lparr> persistSession = True, autoRefreshToken = Some True,
                storage = (if hasWindow then Some LocalStorage else None),
                storageKey = ''whaletools-auth-tkicdgegwqmiybpnrazs'',
                detectSessionInUrl = Some True \<rparr>,
       globalHeaders = None \<rparr>"

definition dataOptions :: ClientOptions where
  "dataOptions =
     \<lparr> auth = \<lparr> persistSession = False, autoRefreshToken = None, storage = None,
                storageKey = ''whaletools-data-elhsobjvwmjfminxxcwy'',
                detectSessionInUrl = None \<rparr>,
       globalHeaders = Some [(''x-my-custom-header'', ''whaletools-coa-generator''),
                             (''x-client-info'', ''whaletools/1.0.0'')] \<rparr>"

definition vendorOptions :: ClientOptions where
  "vendorOptions =
     \<lparr> auth = \<lparr> persistSession = False, autoRefreshToken = None, storage = None,
                storageKey = ''whaletools-vendor-uaednwpxursknmwdeejn'',
                detectSessionInUrl = None \<rparr>,
       globalHeaders = Some [(''x-my-custom-header'', ''whaletools-vendor-integration''),
                             (''x-client-info'', ''whaletools/1.0.0'')] \<rparr>"

text \<open>
  The getters. When \<^verbatim>\<open>createClient\<close> throws, the assignment does not happen and the
  exception leaves the getter: the result is the error and the module is as before.
\<close>

definition getSupabaseAuth ::
  "library \<Rightarrow> env \<Rightarrow> bool \<Rightarrow> ClientModule \<Rightarrow> (client_error + SupabaseClient) \<times> ClientModule" where
  "getSupabaseAuth accepts e hasWindow m =
     (case authClientInstance m of
        Some c \<Rightarrow> (Inr c, m)
      | None \<Rightarrow>
          (case createClient accepts (getAuthUrl e) (getAuthKey e) (authOptions hasWindow) m of
             (Inl err, m') \<Rightarrow> (Inl err, m')
           | (Inr c, m') \<Rightarrow> (Inr c, m'\<lparr> authClientInstance := Some c \<rparr>)))"

definition getSupabaseData ::
  "library \<Rightarrow> env \<Rightarrow> ClientModule \<Rightarrow> (client_error + SupabaseClient) \<times> ClientModule" where
  "getSupabaseData accepts e m =
     (case dataClientInstance m of
        Some c \<Rightarrow> (Inr c, m)
      | None \<Rightarrow>
          (case createClient accepts (getDataUrl e) (getDataKey e) dataOptions m of
             (Inl err, m') \<Rightarrow> (Inl err, m')
           | (Inr c, m') \<Rightarrow> (Inr c, m'\<lparr> dataClientInstance := Some c \<rparr>)))"

definition getSupabaseVendor ::
  "library \<Rightarrow> env \<Rightarrow> ClientModule \<Rightarrow> (client_error + SupabaseClient) \<times> ClientModule" where
  "getSupabaseVendor accepts e m =
     (case vendorClientInstance m of
        Some c \<Rightarrow> (Inr c, m)
      | None \<Rightarrow>
          (case createClient accepts (getVendorUrl e) (getVendorKey e) vendorOptions m of
             (Inl err, m') \<Rightarrow> (Inl err, m')
           | (Inr c, m') \<Rightarrow> (Inr c, m'\<lparr> vendorClientInstance := Some c \<rparr>)))"

text \<open>
  One call of one of the three getters, in the surroundings it runs in (the library's
  behaviour, the environment, whether \<^verbatim>\<open>window\<close> is defined), and a sequence of such
  calls, each starting from the module the previous one left.
\<close>

datatype getter = Auth | Data | Vendor

record surroundings =
  accepts :: library
  environment :: env
  hasWindow :: bool

definition callGetter ::
  "getter \<Rightarrow> surroundings \<Rightarrow> ClientModule \<Rightarrow> (client_error + SupabaseClient) \<times> ClientModule" where
  "callGetter g w m =
     (case g of
        Auth \<Rightarrow> getSupabaseAuth (accepts w) (environment w) (hasWindow w) m
      | Data \<Rightarrow> getSupabaseData (accepts w) (environment w) m
      | Vendor \<Rightarrow> getSupabaseVendor (accepts w) (environment w) m)"

definition instanceOf :: "getter \<Rightarrow> ClientModule \<Rightarrow> SupabaseClient option" where
  "instanceOf g m =
     (case g of
        Auth \<Rightarrow> authClientInstance m
      | Data \<Rightarrow> dataClientInstance m
      | Vendor \<Rightarrow> vendorClientInstance m)"

fun runCalls :: "(getter \<times> surroundings) list \<Rightarrow> ClientModule \<Rightarrow> ClientModule" where
  "runCalls [] m = m"
| "runCalls ((g, w) # cs) m = runCalls cs (snd (callGetter g w m))"

text \<open>
  The arguments a getter hands to \<^verbatim>\<open>createClient\<close>, and whether the library accepts them.
\<close>

definition getterArgs :: "getter \<Rightarrow> surroundings \<Rightarrow> string \<times> string \<times> ClientOptions" where
  "getterArgs g w =
     (case g of
        Auth \<Rightarrow>
          (getAuthUrl (environment w), getAuthKey (environment w), authOptions (hasWindow w))
      | Data \<Rightarrow> (getDataUrl (environment w), getDataKey (environment w), dataOptions)
      | Vendor \<Rightarrow> (getVendorUrl (environment w), getVendorKey (environment w), vendorOptions))"

definition libraryAccepts :: "getter \<Rightarrow> surroundings \<Rightarrow> bool" where
  "libraryAccepts g w = (case getterArgs g w of (url, key, opts) \<Rightarrow> accepts w url key opts)"

text \<open>
  Surroundings for evaluating the getters: an environment with every variable set, and
  one with none, where each \<^verbatim>\<open>process.env.X || ''\<close> is the empty string.
\<close>

definition fullEnv :: env where
  "fullEnv =
     [''NEXT_PUBLIC_SUPABASE_AUTH_URL'' \<mapsto> ''https://auth.example.co'',
      ''NEXT_PUBLIC_SUPABASE_AUTH_ANON_KEY'' \<mapsto> ''ka'',
      ''NEXT_PUBLIC_SUPABASE_DATA_URL'' \<mapsto> ''https://data.example.co'',
      ''NEXT_PUBLIC_SUPABASE_DATA_ANON_KEY'' \<mapsto> ''kd'',
      ''NEXT_PUBLIC_SUPABASE_VENDOR_URL'' \<mapsto> ''https://vendor.example.co'',
      ''NEXT_PUBLIC_SUPABASE_VENDOR_ANON_KEY'' \<mapsto> ''kv'']"

text \<open>
  The library as \<^verbatim>\<open>@supabase/supabase-js\<close> behaves: \<^verbatim>\<open>createClient\<close> throws
  \<^verbatim>\<open>supabaseUrl is required.\<close> on an empty URL and \<^verbatim>\<open>supabaseKey is required.\<close> on
  an empty key, and returns a client otherwise.
\<close>

definition nonEmptyArgs :: library where
  "nonEmptyArgs url key opts = (url \<noteq> [] \<and> key \<noteq> [])"

definition browser :: surroundings where
  "browser = \<lparr> accepts = nonEmptyArgs, environment = fullEnv, hasWindow = True \<rparr>"

definition bareServer :: surroundings where
  "bareServer = \<lparr> accepts = nonEmptyArgs, environment = Map.empty, hasWindow = False \<rparr>"

section \<open>Properties\<close>

subsection \<open>Validation Engine\<close>

lemma isValid_iff:
  "isValid (validateCOA cfg coa previous)
     \<longleftrightarrow> \<not> (\<exists>f \<in> set (allFindings cfg coa previous). severity f = Error)"
  by (auto simp: validateCOA_def Let_def filter_empty_conv)

lemma errors_iff:
  "f \<in> set (errors (validateCOA cfg coa previous))
     \<longleftrightarrow> f \<in> set (allFindings cfg coa previous) \<and> severity f = Error"
  by (auto simp: validateCOA_def Let_def)

lemma uniqueness_findings:
  "f \<in> set (fst (validateDataUniqueness coa previous)) \<Longrightarrow>
   f \<in> {duplicateCannabinoidsFinding, duplicateMoistureFinding, duplicateBatchIdFinding,
        duplicateSampleIdFinding}"
  by (auto simp: validateDataUniqueness_def Let_def split: option.splits if_splits)

lemma uniqueness_severities:
  "severity duplicateCannabinoidsFinding = Warning"
  "severity duplicateMoistureFinding = Warning"
  "severity duplicateBatchIdFinding = Warning"
  "severity duplicateSampleIdFinding = Error"
  by (simp_all add: duplicateCannabinoidsFinding_def duplicateMoistureFinding_def
      duplicateBatchIdFinding_def duplicateSampleIdFinding_def uniquenessFinding_def)

lemma duplicateSampleId_found:
  "\<exists>p \<in> set history. sampleId p = sampleId coa \<Longrightarrow>
   duplicateSampleIdFinding \<in> set (fst (validateDataUniqueness coa (Some history)))
   \<and> duplicateSampleIdFound (snd (validateDataUniqueness coa (Some history)))"
  by (auto simp: validateDataUniqueness_def uniquenessFlags_def Let_def list_ex_iff)

text \<open>
  C4. For every report and every history that holds a report of the same sample
  identifier, whatever else the two reports hold, the uniqueness check produces the
  duplicate-sample-identifier finding, of severity error; it is among the verdict's
  errors and the verdict fails. The other three uniqueness findings are warnings, and a
  uniqueness finding of severity error is the duplicate-sample-identifier finding.
\<close>

theorem duplicate_sampleId_error:
  "((\<exists>p \<in> set history. sampleId p = sampleId coa) \<longrightarrow>
      duplicateSampleIdFinding \<in> set (fst (validateDataUniqueness coa (Some history)))
      \<and> duplicateSampleIdFound (snd (validateDataUniqueness coa (Some history)))
      \<and> duplicateSampleIdFinding \<in> set (errors (validateCOA cfg coa (Some history)))
      \<and> \<not> isValid (validateCOA cfg coa (Some history)))
   \<and> type duplicateSampleIdFinding = DataUniqueness
   \<and> severity duplicateSampleIdFinding = Error
   \<and> field duplicateSampleIdFinding = Some ''sampleId''
   \<and> severity duplicateCannabinoidsFinding = Warning
   \<and> severity duplicateMoistureFinding = Warning
   \<and> severity duplicateBatchIdFinding = Warning
   \<and> (\<forall>f \<in> set (fst (validateDataUniqueness coa previous)).
        f \<in> {duplicateCannabinoidsFinding, duplicateMoistureFinding,
             duplicateBatchIdFinding, duplicateSampleIdFinding}
        \<and> (severity f = Error \<longrightarrow> f = duplicateSampleIdFinding))"
proof -
  have dup: "duplicateSampleIdFinding \<in> set (fst (validateDataUniqueness coa (Some history)))
      \<and> duplicateSampleIdFound (snd (validateDataUniqueness coa (Some history)))
      \<and> duplicateSampleIdFinding \<in> set (errors (validateCOA cfg coa (Some history)))
      \<and> \<not> isValid (validateCOA cfg coa (Some history))"
    if h: "\<exists>p \<in> set history. sampleId p = sampleId coa"
  proof -
    from duplicateSampleId_found [OF h]
    have a: "duplicateSampleIdFinding \<in> set (fst (validateDataUniqueness coa (Some history)))"
      and b: "duplicateSampleIdFound (snd (validateDataUniqueness coa (Some history)))"
      by simp_all
    from a have c: "duplicateSampleIdFinding \<in> set (allFindings cfg coa (Some history))"
      by (simp add: allFindings_def)
    with uniqueness_severities(4) show ?thesis
      using a b by (auto simp: errors_iff isValid_iff)
  qed
  have only: "f \<in> {duplicateCannabinoidsFinding, duplicateMoistureFinding,
             duplicateBatchIdFinding, duplicateSampleIdFinding}
        \<and> (severity f = Error \<longrightarrow> f = duplicateSampleIdFinding)"
    if "f \<in> set (fst (validateDataUniqueness coa previous))" for f
    using uniqueness_findings [OF that] uniqueness_severities by auto
  have tf: "type duplicateSampleIdFinding = DataUniqueness"
    "field duplicateSampleIdFinding = Some ''sampleId''"
    by (simp_all add: duplicateSampleIdFinding_def uniquenessFinding_def)
  from dup only tf uniqueness_severities show ?thesis
    by blast
qed

theorem duplicate_sampleId_error_witness:
  "(\<exists>p \<in> set [sampleCOA ''S0'' ''B1'' 1 2, sampleCOA ''S1'' ''B7'' 3 4].
      sampleId p = sampleId (sampleCOA ''S1'' ''B1'' 18 17))
   \<and> fst (validateDataUniqueness (sampleCOA ''S1'' ''B1'' 18 17)
         (Some [sampleCOA ''S0'' ''B1'' 1 2, sampleCOA ''S1'' ''B7'' 3 4]))
      = [duplicateCannabinoidsFinding, duplicateMoistureFinding, duplicateBatchIdFinding,
         duplicateSampleIdFinding]
   \<and> duplicateSampleIdFinding
       \<in> set (errors (validateCOA sampleConfig (sampleCOA ''S1'' ''B1'' 18 17)
                        (Some [sampleCOA ''S0'' ''B1'' 1 2, sampleCOA ''S1'' ''B7'' 3 4])))
   \<and> \<not> isValid (validateCOA sampleConfig (sampleCOA ''S1'' ''B1'' 18 17)
                  (Some [sampleCOA ''S0'' ''B1'' 1 2, sampleCOA ''S1'' ''B7'' 3 4]))
   \<and> severity duplicateBatchIdFinding = Warning"
proof -
  let ?coa = "sampleCOA ''S1'' ''B1'' 18 17"
  let ?history = "[sampleCOA ''S0'' ''B1'' 1 2, sampleCOA ''S1'' ''B7'' 3 4]"
  have h: "\<exists>p \<in> set ?history. sampleId p = sampleId ?coa"
    by (simp add: sampleCOA_def)
  have l: "fst (validateDataUniqueness ?coa (Some ?history))
      = [duplicateCannabinoidsFinding, duplicateMoistureFinding, duplicateBatchIdFinding,
         duplicateSampleIdFinding]"
    by (simp add: validateDataUniqueness_def uniquenessFlags_def Let_def sampleCOA_def
        analyteValues_def)
  from h l duplicate_sampleId_error [of ?history ?coa sampleConfig "Some ?history"]
  show ?thesis
    by blast
qed

lemma totalBelowTHC_found:
  "totalCannabinoids coa < totalTHC coa \<Longrightarrow>
   totalBelowTHCFinding coa \<in> set (fst (validateLogicConsistency cfg coa))
   \<and> \<not> totalCannabiniodsGteTotalTHC (snd (validateLogicConsistency cfg coa))"
  by (simp add: validateLogicConsistency_def logicFlags_def Let_def)

text \<open>
  C5. For every report whose stated total of all analytes is less than its stated total
  THC, the logic-consistency check produces a finding of type logic-consistency and
  severity error; it is among the verdict's errors and the verdict fails.
\<close>

theorem total_below_THC_error:
  "totalCannabinoids coa < totalTHC coa \<Longrightarrow>
   totalBelowTHCFinding coa \<in> set (fst (validateLogicConsistency cfg coa))
   \<and> type (totalBelowTHCFinding coa) = LogicConsistency
   \<and> severity (totalBelowTHCFinding coa) = Error
   \<and> \<not> totalCannabiniodsGteTotalTHC (snd (validateLogicConsistency cfg coa))
   \<and> totalBelowTHCFinding coa \<in> set (errors (validateCOA cfg coa previous))
   \<and> \<not> isValid (validateCOA cfg coa previous)"
proof -
  assume h: "totalCannabinoids coa < totalTHC coa"
  have ts: "type (totalBelowTHCFinding coa) = LogicConsistency"
    "severity (totalBelowTHCFinding coa) = Error"
    by (simp_all add: totalBelowTHCFinding_def)
  from totalBelowTHC_found [OF h, of cfg]
  have a: "totalBelowTHCFinding coa \<in> set (fst (validateLogicConsistency cfg coa))"
    and b: "\<not> totalCannabiniodsGteTotalTHC (snd (validateLogicConsistency cfg coa))"
    by simp_all
  from a have "totalBelowTHCFinding coa \<in> set (allFindings cfg coa previous)"
    by (simp add: allFindings_def)
  with ts a b show ?thesis
    by (auto simp: errors_iff isValid_iff)
qed

theorem total_below_THC_error_witness:
  "totalCannabinoids (sampleCOA ''S1'' ''B1'' 18 17) < totalTHC (sampleCOA ''S1'' ''B1'' 18 17)
   \<and> totalBelowTHCFinding (sampleCOA ''S1'' ''B1'' 18 17)
       \<in> set (fst (validateLogicConsistency sampleConfig (sampleCOA ''S1'' ''B1'' 18 17)))
   \<and> severity (totalBelowTHCFinding (sampleCOA ''S1'' ''B1'' 18 17)) = Error
   \<and> \<not> isValid (validateCOA sampleConfig (sampleCOA ''S1'' ''B1'' 18 17) None)"
proof -
  have h: "totalCannabinoids (sampleCOA ''S1'' ''B1'' 18 17)
      < totalTHC (sampleCOA ''S1'' ''B1'' 18 17)"
    by (simp add: sampleCOA_def)
  from h total_below_THC_error [OF h, of sampleConfig None]
  show ?thesis
    by blast
qed

subsection \<open>Selection\<close>

lemma set_js_set_copy: "set (js_set_copy s) = set s"
  by (simp add: js_set_copy_def)

lemma set_handleSelectCOA:
  "set (handleSelectCOA x s) = (if x \<in> set s then set s - {x} else set s \<union> {x})"
  by (auto simp: handleSelectCOA_def Let_def js_has_def js_delete_def js_add_def
      set_js_set_copy)

lemma distinct_handleSelectCOA: "distinct s \<Longrightarrow> distinct (handleSelectCOA x s)"
  by (simp add: handleSelectCOA_def Let_def js_has_def js_delete_def js_add_def
      js_set_copy_def)

text \<open>
  C8. The toggle replaces the selection \<open>S\<close> by \<open>S - {x}\<close> when \<open>x\<close> is selected and by
  \<open>S \<union> {x}\<close> otherwise, and toggling the same identifier twice gives back the elements
  of the original selection.
\<close>

theorem handleSelectCOA_toggle:
  "set (handleSelectCOA x s) = (if x \<in> set s then set s - {x} else set s \<union> {x})
   \<and> set (handleSelectCOA x (handleSelectCOA x s)) = set s"
  by (auto simp: set_handleSelectCOA)

subsection \<open>Filtering\<close>

lemma js_includes_iff_sublist: "js_includes s t \<longleftrightarrow> sublist t s"
  by (induction s) (auto simp: sublist_Cons_right)

lemma js_includes_Nil [simp]: "js_includes s []"
  by (simp add: js_includes_iff_sublist)

lemma toLowerCase_Nil [simp]: "toLowerCase [] = []"
  by (simp add: toLowerCase_def)

lemma matchesSearch_empty: "matchesSearch [] coa"
  by (simp add: matchesSearch_def)

lemma toLowerChar_code:
  "of_char (toLowerChar c) =
     (if (65 \<le> (of_char c :: nat) \<and> (of_char c :: nat) \<le> 90)
         \<or> (192 \<le> (of_char c :: nat) \<and> (of_char c :: nat) \<le> 222
             \<and> (of_char c :: nat) \<noteq> 215)
      then (of_char c :: nat) + 32
      else of_char c)"
  by (auto simp: toLowerChar_def Let_def)

lemma toLowerCase_accented:
  "toLowerCase (''CAF'' @ [char_of (201::nat)]) = ''caf'' @ [char_of (233::nat)]"
  by code_simp

lemma toLowerChar_multiplication_sign:
  "toLowerChar (char_of (215::nat)) = char_of (215::nat)"
  by code_simp

lemma filteredCOAs_accented:
  "map coaId (filteredCOAs sampleFiles (''caf'' @ [char_of (233::nat)]) ''all'') = [''4'']"
  by code_simp

text \<open>
  C9. Every row of \<open>filteredCOAs\<close> passes both filters: the lower-cased search term is a
  contiguous part of its lower-cased name, strain name or client folder, and the selected
  client is \<open>all\<close> or is its client folder. With an empty search term and the client
  \<open>all\<close>, \<open>filteredCOAs\<close> is the whole list, in the same order.
\<close>

theorem filteredCOAs_sound:
  "(\<forall>coa \<in> set (filteredCOAs coaFiles searchTerm selectedClient).
      (sublist (toLowerCase searchTerm) (toLowerCase (coaName coa))
       \<or> (\<exists>s. strainName coa = Some s
              \<and> sublist (toLowerCase searchTerm) (toLowerCase s))
       \<or> (\<exists>f. clientFolder coa = Some f
              \<and> sublist (toLowerCase searchTerm) (toLowerCase f)))
      \<and> (selectedClient = ''all'' \<or> clientFolder coa = Some selectedClient))
   \<and> filteredCOAs coaFiles [] ''all'' = coaFiles"
  by (auto simp: filteredCOAs_def matchesSearch_def matchesClient_def optIncludes_def
      js_includes_iff_sublist split: option.splits)

subsection \<open>Filtering: an instance\<close>

theorem filteredCOAs_sound_witness:
  "sampleFile ''1'' ''Blue_Dream.pdf'' (Some ''Flora'') (Some ''Blue Dream'')
     \<in> set (filteredCOAs sampleFiles ''BLUE'' ''Flora'')
   \<and> (sublist (toLowerCase ''BLUE'')
         (toLowerCase
            (coaName (sampleFile ''1'' ''Blue_Dream.pdf'' (Some ''Flora'') (Some ''Blue Dream''))))
       \<or> (\<exists>s. strainName (sampleFile ''1'' ''Blue_Dream.pdf'' (Some ''Flora'') (Some ''Blue Dream''))
                 = Some s
              \<and> sublist (toLowerCase ''BLUE'') (toLowerCase s))
       \<or> (\<exists>f. clientFolder (sampleFile ''1'' ''Blue_Dream.pdf'' (Some ''Flora'') (Some ''Blue Dream''))
                 = Some f
              \<and> sublist (toLowerCase ''BLUE'') (toLowerCase f)))
   \<and> (''Flora'' = ''all''
       \<or> clientFolder (sampleFile ''1'' ''Blue_Dream.pdf'' (Some ''Flora'') (Some ''Blue Dream''))
           = Some ''Flora'')
   \<and> filteredCOAs sampleFiles [] ''all'' = sampleFiles"
proof -
  let ?c = "sampleFile ''1'' ''Blue_Dream.pdf'' (Some ''Flora'') (Some ''Blue Dream'')"
  have m: "?c \<in> set (filteredCOAs sampleFiles ''BLUE'' ''Flora'')"
    by code_simp
  from m filteredCOAs_sound [of sampleFiles "''BLUE''" "''Flora''"]
  show ?thesis by blast
qed

subsection \<open>The client getters\<close>

lemmas getter_defs = callGetter_def instanceOf_def getSupabaseAuth_def getSupabaseData_def
  getSupabaseVendor_def createClient_def

lemma callGetter_stored: "instanceOf g m = Some c \<Longrightarrow> callGetter g w m = (Inr c, m)"
  by (cases g) (simp_all add: getter_defs)

lemma callGetter_first:
  "instanceOf g m = None \<Longrightarrow> libraryAccepts g w \<Longrightarrow>
   \<exists>c m'. callGetter g w m = (Inr c, m') \<and> instanceOf g m' = Some c
      \<and> ref c = created m \<and> created m' = Suc (created m)"
  by (cases g) (simp_all add: getter_defs libraryAccepts_def getterArgs_def)

lemma callGetter_rejected:
  "instanceOf g m = None \<Longrightarrow> \<not> libraryAccepts g w \<Longrightarrow>
   callGetter g w m = (Inl CreateClientThrew, m)"
  by (cases g) (simp_all add: getter_defs libraryAccepts_def getterArgs_def)

lemma callGetter_success_stores:
  "callGetter g w m = (Inr c, m') \<Longrightarrow> instanceOf g m' = Some c"
  by (cases g) (auto simp: getter_defs split: option.splits if_splits)

lemma callGetter_keeps:
  "instanceOf g m = Some c \<Longrightarrow> instanceOf g (snd (callGetter g' w m)) = Some c"
  by (cases g; cases g') (auto simp: getter_defs split: option.splits if_splits)

lemma runCalls_keeps:
  "instanceOf g m = Some c \<Longrightarrow> instanceOf g (runCalls cs m) = Some c"
  by (induction cs arbitrary: m) (auto simp: callGetter_keeps)

text \<open>
  C10, as stated, fails on the getters: the first call does not always create and store
  a client. With no environment variable set, the getter hands \<^verbatim>\<open>createClient\<close> an empty
  URL and an empty key, the library throws, and nothing is stored; the next call, in an
  environment with the variables set, is then the one that creates a client.
\<close>

theorem getSupabase_first_call_counterexample:
  "instanceOf Auth initialModule = None
   \<and> getAuthUrl (environment bareServer) = []
   \<and> getAuthKey (environment bareServer) = []
   \<and> callGetter Auth bareServer initialModule = (Inl CreateClientThrew, initialModule)
   \<and> instanceOf Auth (snd (callGetter Auth bareServer initialModule)) = None
   \<and> created (snd (callGetter Auth browser (snd (callGetter Auth bareServer initialModule))))
       = 1"
  by (simp add: callGetter_def instanceOf_def getSupabaseAuth_def createClient_def
      initialModule_def bareServer_def browser_def nonEmptyArgs_def getAuthUrl_def
      getAuthKey_def envOrEmpty_def fullEnv_def)

text \<open>
  C10, amended. Each of the three getters is a lazy singleton once \<^verbatim>\<open>createClient\<close>
  returns. A call that finds its variable empty, with arguments the library accepts,
  makes a new client (numbered by the count of clients made so far, which goes up by
  one) and stores it. Once a call of a getter has returned a client, every later call of
  that getter, after any calls of the three getters in any surroundings, returns that
  same client and leaves the module as it found it, so no client is made.
\<close>

theorem getSupabase_lazy_singleton:
  "(instanceOf g m = None \<and> libraryAccepts g w \<longrightarrow>
      (\<exists>c m'. callGetter g w m = (Inr c, m') \<and> instanceOf g m' = Some c
         \<and> ref c = created m \<and> created m' = Suc (created m)))
   \<and> (callGetter g w m = (Inr c, m') \<longrightarrow>
        callGetter g w' (runCalls cs m') = (Inr c, runCalls cs m'))"
  using callGetter_first callGetter_success_stores runCalls_keeps callGetter_stored
  by blast

theorem getSupabase_lazy_singleton_witness:
  "instanceOf Auth initialModule = None \<and> libraryAccepts Auth browser
   \<and> (\<exists>c m'. callGetter Auth browser initialModule = (Inr c, m')
        \<and> instanceOf Auth m' = Some c \<and> ref c = 0 \<and> created m' = 1
        \<and> callGetter Auth bareServer (runCalls [(Data, browser), (Vendor, bareServer)] m')
            = (Inr c, runCalls [(Data, browser), (Vendor, bareServer)] m'))"
proof -
  have h1: "instanceOf Auth initialModule = None"
    by (simp add: instanceOf_def initialModule_def)
  have h2: "libraryAccepts Auth browser"
    by (simp add: libraryAccepts_def getterArgs_def browser_def nonEmptyArgs_def
        getAuthUrl_def getAuthKey_def envOrEmpty_def fullEnv_def)
  have h3: "created initialModule = 0"
    by (simp add: initialModule_def)
  from h1 h2 getSupabase_lazy_singleton [where g = Auth and m = initialModule and w = browser]
  obtain c m' where first: "callGetter Auth browser initialModule = (Inr c, m')"
    and stored: "instanceOf Auth m' = Some c"
    and fresh: "ref c = created initialModule" "created m' = Suc (created initialModule)"
    by blast
  from first
    getSupabase_lazy_singleton [where g = Auth and m = initialModule and w = browser
      and c = c and m' = m' and w' = bareServer
      and cs = "[(Data, browser), (Vendor, bareServer)]"]
  have later:
    "callGetter Auth bareServer (runCalls [(Data, browser), (Vendor, bareServer)] m')
       = (Inr c, runCalls [(Data, browser), (Vendor, bareServer)] m')"
    by blast
  from h1 h2 h3 first stored fresh later show ?thesis
    by auto
qed

end
